theory Spec2Isabelle
  imports Main
begin

section \<open>CMAS: three versions of one client\<close>

text \<open>
  The repository holds three versions of the same single-page client:
  \<^item> \<^verbatim>\<open>src/frontend/src/App.js\<close>, built on \<^verbatim>\<open>fetch\<close> (suffix \<open>_app\<close> below);
  \<^item> \<^verbatim>\<open>src/unnamed/part_000\<close>, built on axios (suffix \<open>_p0\<close>);
  \<^item> \<^verbatim>\<open>src/unnamed/part_001\<close>, built on axios (suffix \<open>_p1\<close>).
  A JavaScript number that the code only compares is an \<open>int\<close>; a value that may be
  \<^verbatim>\<open>undefined\<close> or \<^verbatim>\<open>null\<close> is an \<open>option\<close>, with \<open>None\<close> for both.
\<close>

subsection \<open>JavaScript values\<close>

text \<open>
  Truthiness of a string that may be undefined: \<^verbatim>\<open>undefined\<close>, \<^verbatim>\<open>null\<close> and the empty
  string are falsy, every other string is truthy.
\<close>

definition truthy :: "string option \<Rightarrow> bool" where
  "truthy v = (case v of None \<Rightarrow> False | Some s \<Rightarrow> s \<noteq> [])"

text \<open>\<^verbatim>\<open>v || d\<close> on a string that may be undefined, with a string default.\<close>

definition js_or :: "string option \<Rightarrow> string \<Rightarrow> string" where
  "js_or v d = (case v of None \<Rightarrow> d | Some s \<Rightarrow> if s \<noteq> [] then s else d)"

text \<open>A value interpolated into a template literal: \<^verbatim>\<open>undefined\<close> prints as its name.\<close>

definition template_str :: "string option \<Rightarrow> string" where
  "template_str v = (case v of None \<Rightarrow> ''undefined'' | Some s \<Rightarrow> s)"

subsection \<open>Medications and their stock status\<close>

record medication =
  med_id :: string
  med_name :: string
  description :: string
  med_unit :: string
  current_stock :: int
  minimum_threshold :: int

text \<open>
  The object returned by \<^verbatim>\<open>getStockStatus\<close>. In \<^verbatim>\<open>App.js\<close> it has the fields
  \<^verbatim>\<open>text\<close> (here \<open>info_text\<close>) and \<^verbatim>\<open>color\<close>; in \<^verbatim>\<open>part_000\<close> it has \<^verbatim>\<open>status\<close>
  as well.
\<close>

record stock_info =
  info_text :: string
  color :: string

record stock_info_p0 = stock_info +
  status :: string

text \<open>
  The labels of \<^verbatim>\<open>App.js\<close> start with a pictogram; it is kept as its UTF-8 bytes
  (a cross mark, a warning sign with its variation selector, a check mark).
\<close>

definition cross_mark :: string where
  "cross_mark = [CHR 0xE2, CHR 0x9D, CHR 0x8C]"

definition warning_sign :: string where
  "warning_sign = [CHR 0xE2, CHR 0x9A, CHR 0xA0, CHR 0xEF, CHR 0xB8, CHR 0x8F]"

definition check_mark :: string where
  "check_mark = [CHR 0xE2, CHR 0x9C, CHR 0x85]"

text \<open>\<^verbatim>\<open>App.js\<close>, \<^verbatim>\<open>getStockStatus\<close> (in \<^verbatim>\<open>Dashboard\<close> and again in \<^verbatim>\<open>MedicationsTab\<close>).\<close>

definition getStockStatus_app :: "medication \<Rightarrow> stock_info" where
  "getStockStatus_app medication =
     (if current_stock medication = 0 then
        \<lparr>info_text = cross_mark @ '' Out of Stock'', color = ''red''\<rparr>
      else if current_stock medication \<le> minimum_threshold medication then
        \<lparr>info_text = warning_sign @ '' Low Stock'', color = ''yellow''\<rparr>
      else
        \<lparr>info_text = check_mark @ '' In Stock'', color = ''green''\<rparr>)"

text \<open>\<^verbatim>\<open>part_000\<close>, \<^verbatim>\<open>getStockStatus\<close> in \<^verbatim>\<open>MedicationsTab\<close>.\<close>

definition getStockStatus_p0 :: "medication \<Rightarrow> stock_info_p0" where
  "getStockStatus_p0 med =
     (if current_stock med = 0 then
        \<lparr>info_text = ''Out of Stock'', color = ''red'', status = ''critical''\<rparr>
      else if current_stock med \<le> minimum_threshold med then
        \<lparr>info_text = ''Low Stock'', color = ''yellow'', status = ''low''\<rparr>
      else
        \<lparr>info_text = ''In Stock'', color = ''green'', status = ''good''\<rparr>)"

text \<open>
  \<^verbatim>\<open>part_001\<close> has no \<^verbatim>\<open>getStockStatus\<close>: \<^verbatim>\<open>MedicationsContent\<close> computes two flags
  for each medication and renders badges and a colour class from them.
\<close>

definition isLowStock :: "medication \<Rightarrow> bool" where
  "isLowStock med = (current_stock med \<le> minimum_threshold med)"

definition isCritical :: "medication \<Rightarrow> bool" where
  "isCritical med = (current_stock med = 0)"

definition stockBadges_p1 :: "medication \<Rightarrow> string list" where
  "stockBadges_p1 med =
     (if isCritical med then [''OUT OF STOCK''] else []) @
     (if isLowStock med \<and> \<not> isCritical med then [''LOW STOCK''] else [])"

definition stockClass_p1 :: "medication \<Rightarrow> string" where
  "stockClass_p1 med =
     (if isCritical med then ''text-red-600''
      else if isLowStock med then ''text-yellow-600''
      else ''text-green-600'')"

subsection \<open>Lists derived from the medications\<close>

text \<open>
  \<^verbatim>\<open>lowStockMeds\<close> and \<^verbatim>\<open>criticalStockMeds\<close>: the same two filters in \<^verbatim>\<open>Dashboard\<close> of
  \<^verbatim>\<open>part_000\<close> and in \<^verbatim>\<open>DashboardContent\<close> of \<^verbatim>\<open>part_001\<close>.
\<close>

definition lowStockMeds :: "medication list \<Rightarrow> medication list" where
  "lowStockMeds medications =
     filter (\<lambda>med. current_stock med \<le> minimum_threshold med) medications"

definition criticalStockMeds :: "medication list \<Rightarrow> medication list" where
  "criticalStockMeds medications = filter (\<lambda>med. current_stock med = 0) medications"

text \<open>
  The \<^verbatim>\<open>option\<close> elements of the usage form's selector. The children of an option are
  the fragments of its label; \<^verbatim>\<open>UsageTab\<close> of \<^verbatim>\<open>App.js\<close> and of \<^verbatim>\<open>part_000\<close> map over all
  medications, \<^verbatim>\<open>MedicationsContent\<close> of \<^verbatim>\<open>part_001\<close> filters them first.
\<close>

datatype fragment = Txt string | Num int

record select_option =
  opt_key :: string
  opt_value :: string
  opt_children :: "fragment list"

definition usageOptions_app :: "medication list \<Rightarrow> select_option list" where
  "usageOptions_app medications =
     map (\<lambda>med. \<lparr>opt_key = med_id med, opt_value = med_id med,
                 opt_children = [Txt (med_name med), Txt '' (Available: '',
                   Num (current_stock med), Txt '' '', Txt (med_unit med), Txt '')'']\<rparr>)
       medications"

definition usageOptions_p0 :: "medication list \<Rightarrow> select_option list" where
  "usageOptions_p0 medications =
     map (\<lambda>med. \<lparr>opt_key = med_id med, opt_value = med_id med,
                 opt_children = [Txt (med_name med), Txt '' (Available: '',
                   Num (current_stock med), Txt '' '', Txt (med_unit med), Txt '')'']\<rparr>)
       medications"

definition usageOptions_p1 :: "medication list \<Rightarrow> select_option list" where
  "usageOptions_p1 medications =
     map (\<lambda>med. \<lparr>opt_key = med_id med, opt_value = med_id med,
                 opt_children = [Txt (med_name med), Txt '' (Stock: '',
                   Num (current_stock med), Txt '')'']\<rparr>)
       (filter (\<lambda>med. current_stock med > 0) medications)"

subsection \<open>Configuration\<close>

text \<open>
  The base URL of the backend. \<open>env\<close> is \<^verbatim>\<open>process.env.REACT_APP_BACKEND_URL\<close>, \<open>None\<close>
  when the variable is not set at build time. \<^verbatim>\<open>App.js\<close> and \<^verbatim>\<open>part_000\<close> have the same
  line; \<^verbatim>\<open>part_001\<close> interpolates the variable into a template literal.
\<close>

definition API_BASE_URL_app :: "string option \<Rightarrow> string" where
  "API_BASE_URL_app env = js_or env ''http://localhost:8000/api''"

definition API_BASE_URL_p0 :: "string option \<Rightarrow> string" where
  "API_BASE_URL_p0 env = js_or env ''http://localhost:8000/api''"

definition BACKEND_URL_p1 :: "string option \<Rightarrow> string option" where
  "BACKEND_URL_p1 env = env"

definition API_p1 :: "string option \<Rightarrow> string" where
  "API_p1 env = template_str (BACKEND_URL_p1 env) @ ''/api''"

text \<open>
  What the specification calls a well-formed local address, read as: an \<^verbatim>\<open>http\<close> URL
  whose host is \<^verbatim>\<open>localhost\<close> or the loopback address, with a numeric port.
\<close>

definition is_digit :: "char \<Rightarrow> bool" where
  "is_digit c = (c \<in> set ''0123456789'')"

definition local_address :: "string \<Rightarrow> bool" where
  "local_address url =
     (let rest = (if take 17 url = ''http://localhost:'' then Some (drop 17 url)
                  else if take 17 url = ''http://127.0.0.1:'' then Some (drop 17 url)
                  else None)
      in case rest of
           None \<Rightarrow> False
         | Some r \<Rightarrow> takeWhile is_digit r \<noteq> [] \<and>
                     (dropWhile is_digit r = [] \<or> hd (dropWhile is_digit r) = CHR ''/''))"

subsection \<open>The auth context\<close>

datatype js_error = Error string

text \<open>
  \<^verbatim>\<open>useContext\<close>: the value of the nearest enclosing provider, or the default given to
  \<^verbatim>\<open>createContext\<close> when there is none. All three versions call \<^verbatim>\<open>createContext()\<close> with no
  argument, so the default is \<^verbatim>\<open>undefined\<close>. The list holds the values of the enclosing
  providers, innermost first.
\<close>

definition useContext :: "'c list \<Rightarrow> 'c option" where
  "useContext providers = (case providers of [] \<Rightarrow> None | v # _ \<Rightarrow> Some v)"

text \<open>\<^verbatim>\<open>useAuth\<close>, the same in the three versions. An object is truthy.\<close>

definition useAuth :: "'c list \<Rightarrow> js_error + 'c" where
  "useAuth providers =
     (let context = useContext providers in
      case context of
        None \<Rightarrow> Inl (Error ''useAuth must be used within an AuthProvider'')
      | Some c \<Rightarrow> Inr c)"

subsection \<open>HTTP outcomes\<close>

text \<open>
  The body of a response that is not 2xx: a JSON object, with its \<^verbatim>\<open>detail\<close> field when
  it has one (a string), or a body that is not JSON.
\<close>

datatype error_body = JsonBody "string option" | NotJson

text \<open>A request fails with a response that is not 2xx, or with no response at all.\<close>

datatype http_error = ErrorResponse error_body | NoResponse

text \<open>
  The outcome of a request: a 2xx response with the body of the backend's contract, or a
  failure. With \<^verbatim>\<open>fetch\<close> the promise resolves on every response and \<^verbatim>\<open>response.ok\<close>
  tells the two apart; it rejects when there is no response, and \<^verbatim>\<open>response.json()\<close>
  rejects on a body that is not JSON. With axios the promise rejects on every failure.
\<close>

datatype 'a http_outcome = Accepted 'a | Failed http_error

text \<open>\<^verbatim>\<open>error.response?.data?.detail\<close> on the error axios rejects with.\<close>

definition axios_detail :: "http_error \<Rightarrow> string option" where
  "axios_detail e =
     (case e of
        ErrorResponse (JsonBody d) \<Rightarrow> d
      | ErrorResponse NotJson \<Rightarrow> None
      | NoResponse \<Rightarrow> None)"

subsection \<open>The session\<close>

record user_profile =
  username :: string
  role :: string

text \<open>The body of a successful \<^verbatim>\<open>POST /auth/login\<close>: \<^verbatim>\<open>{access_token, user}\<close>.\<close>

record login_body =
  access_token :: string
  body_user :: user_profile

text \<open>
  What the auth provider holds and what it shares with the browser: the state variables
  \<^verbatim>\<open>user\<close>, \<^verbatim>\<open>token\<close> and \<^verbatim>\<open>loading\<close>, the browser's \<^verbatim>\<open>localStorage\<close>, and
  \<^verbatim>\<open>axios.defaults.headers.common['Authorization']\<close>. \<^verbatim>\<open>App.js\<close> does not use axios and
  never touches \<open>authorization\<close>; \<^verbatim>\<open>part_001\<close> has no \<^verbatim>\<open>token\<close> state variable and never
  touches \<open>token\<close>.
\<close>

record session =
  user :: "user_profile option"
  token :: "string option"
  loading :: bool
  localStorage :: "string \<rightharpoonup> string"
  authorization :: "string option"

text \<open>The object the gateway functions return: \<^verbatim>\<open>{success, error, data}\<close>.\<close>

record auth_result =
  success :: bool
  error :: "string option"
  data :: "string option"

text \<open>What the user or the developer gets to see.\<close>

datatype effect = Alert string | ConsoleError string

text \<open>\<^verbatim>\<open>logout\<close> of \<^verbatim>\<open>App.js\<close>.\<close>

definition logout_app :: "session \<Rightarrow> session" where
  "logout_app s =
     s\<lparr>user := None, token := None,
       localStorage := (localStorage s)(''token'' := None)\<rparr>"

text \<open>\<^verbatim>\<open>logout\<close> of \<^verbatim>\<open>part_000\<close>.\<close>

definition logout_p0 :: "session \<Rightarrow> session" where
  "logout_p0 s =
     s\<lparr>token := None, user := None,
       localStorage := (localStorage s)(''token'' := None),
       authorization := None\<rparr>"

text \<open>\<^verbatim>\<open>logout\<close> of \<^verbatim>\<open>part_001\<close>.\<close>

definition logout_p1 :: "session \<Rightarrow> session" where
  "logout_p1 s =
     s\<lparr>localStorage := (localStorage s)(''token'' := None),
       authorization := None,
       user := None\<rparr>"

text \<open>
  \<^verbatim>\<open>login\<close> of \<^verbatim>\<open>App.js\<close>. On a response that is not ok the body is parsed and its
  \<^verbatim>\<open>detail\<close> returned as it is; a body that does not parse and a request without response
  end in the \<^verbatim>\<open>catch\<close>.
\<close>

definition login_app :: "session \<Rightarrow> login_body http_outcome \<Rightarrow> auth_result \<times> session" where
  "login_app s response =
     (case response of
        Accepted d \<Rightarrow>
          (\<lparr>success = True, error = None, data = None\<rparr>,
           s\<lparr>token := Some (access_token d), user := Some (body_user d),
             localStorage := (localStorage s)(''token'' \<mapsto> access_token d)\<rparr>)
      | Failed (ErrorResponse (JsonBody detail)) \<Rightarrow>
          (\<lparr>success = False, error = detail, data = None\<rparr>, s)
      | Failed (ErrorResponse NotJson) \<Rightarrow>
          (\<lparr>success = False, error = Some ''Network error'', data = None\<rparr>, s)
      | Failed NoResponse \<Rightarrow>
          (\<lparr>success = False, error = Some ''Network error'', data = None\<rparr>, s))"

text \<open>\<^verbatim>\<open>login\<close> of \<^verbatim>\<open>part_000\<close>.\<close>

definition login_p0 :: "session \<Rightarrow> login_body http_outcome \<Rightarrow> auth_result \<times> session" where
  "login_p0 s response =
     (case response of
        Accepted d \<Rightarrow>
          (\<lparr>success = True, error = None, data = None\<rparr>,
           s\<lparr>token := Some (access_token d), user := Some (body_user d),
             localStorage := (localStorage s)(''token'' \<mapsto> access_token d),
             authorization := Some (''Bearer '' @ access_token d)\<rparr>)
      | Failed e \<Rightarrow>
          (\<lparr>success = False, error = Some (js_or (axios_detail e) ''Login failed''),
            data = None\<rparr>, s))"

text \<open>\<^verbatim>\<open>login\<close> of \<^verbatim>\<open>part_001\<close>.\<close>

definition login_p1 :: "session \<Rightarrow> login_body http_outcome \<Rightarrow> auth_result \<times> session" where
  "login_p1 s response =
     (case response of
        Accepted d \<Rightarrow>
          (\<lparr>success = True, error = None, data = None\<rparr>,
           s\<lparr>localStorage := (localStorage s)(''token'' \<mapsto> access_token d),
             authorization := Some (''Bearer '' @ access_token d),
             user := Some (body_user d)\<rparr>)
      | Failed e \<Rightarrow>
          (\<lparr>success = False, error = Some (js_or (axios_detail e) ''Login failed''),
            data = None\<rparr>, s))"

text \<open>
  \<^verbatim>\<open>initializeAdmin\<close> of \<^verbatim>\<open>App.js\<close> and of \<^verbatim>\<open>part_000\<close>; the body of a successful
  \<^verbatim>\<open>POST /init/admin\<close> is opaque. In \<^verbatim>\<open>part_001\<close> the function is part of \<^verbatim>\<open>LoginForm\<close>
  and returns nothing: it shows an alert.
\<close>

definition initializeAdmin_app :: "string http_outcome \<Rightarrow> auth_result" where
  "initializeAdmin_app response =
     (case response of
        Accepted _ \<Rightarrow> \<lparr>success = True, error = None, data = None\<rparr>
      | Failed (ErrorResponse (JsonBody detail)) \<Rightarrow>
          \<lparr>success = False, error = detail, data = None\<rparr>
      | Failed (ErrorResponse NotJson) \<Rightarrow>
          \<lparr>success = False, error = Some ''Network error'', data = None\<rparr>
      | Failed NoResponse \<Rightarrow>
          \<lparr>success = False, error = Some ''Network error'', data = None\<rparr>)"

definition initializeAdmin_p0 :: "string http_outcome \<Rightarrow> auth_result" where
  "initializeAdmin_p0 response =
     (case response of
        Accepted d \<Rightarrow> \<lparr>success = True, error = None, data = Some d\<rparr>
      | Failed e \<Rightarrow>
          \<lparr>success = False,
            error = Some (js_or (axios_detail e) ''Failed to initialize admin''),
            data = None\<rparr>)"

definition initializeAdmin_p1 :: "string http_outcome \<Rightarrow> effect list" where
  "initializeAdmin_p1 response =
     (case response of
        Accepted _ \<Rightarrow> [Alert ''Admin user created! Username: admin, Password: admin123'']
      | Failed e \<Rightarrow> [Alert (js_or (axios_detail e) ''Failed to create admin user'')])"

subsection \<open>Startup and the view router\<close>

text \<open>
  The state of the provider at its first render, given the browser's storage.
  \<^verbatim>\<open>App.js\<close> and \<^verbatim>\<open>part_000\<close> initialise \<^verbatim>\<open>token\<close> from the storage; \<^verbatim>\<open>part_001\<close> reads
  the storage in its effect.
\<close>

definition init_app :: "(string \<rightharpoonup> string) \<Rightarrow> session" where
  "init_app ls =
     \<lparr>user = None, token = ls ''token'', loading = True, localStorage = ls,
      authorization = None\<rparr>"

definition init_p0 :: "(string \<rightharpoonup> string) \<Rightarrow> session" where
  "init_p0 ls =
     \<lparr>user = None, token = ls ''token'', loading = True, localStorage = ls,
      authorization = None\<rparr>"

definition init_p1 :: "(string \<rightharpoonup> string) \<Rightarrow> session" where
  "init_p1 ls =
     \<lparr>user = None, token = None, loading = True, localStorage = ls,
      authorization = None\<rparr>"

text \<open>
  The effect of \<^verbatim>\<open>AuthProvider\<close> in \<^verbatim>\<open>App.js\<close>, run to the end of its promise chain.
  \<open>me\<close> is the outcome of \<^verbatim>\<open>GET /auth/me\<close>, consulted only when the request is sent; the
  body of a 2xx response is \<open>None\<close> when it is \<^verbatim>\<open>null\<close> or does not parse. A response
  that is not ok becomes \<^verbatim>\<open>null\<close> and takes the \<^verbatim>\<open>else\<close> branch; a request without
  response takes the \<^verbatim>\<open>catch\<close>, which does the same.
\<close>

definition effect_app :: "session \<Rightarrow> user_profile option http_outcome \<Rightarrow> session" where
  "effect_app s me =
     (if truthy (token s) then
        (case me of
           Accepted (Some d) \<Rightarrow> s\<lparr>user := Some d, loading := False\<rparr>
         | Accepted None \<Rightarrow>
             s\<lparr>localStorage := (localStorage s)(''token'' := None), token := None,
               loading := False\<rparr>
         | Failed _ \<Rightarrow>
             s\<lparr>localStorage := (localStorage s)(''token'' := None), token := None,
               loading := False\<rparr>)
      else s\<lparr>loading := False\<rparr>)"

text \<open>
  The effect depends on \<^verbatim>\<open>[token]\<close>: it runs after the first render and again after a
  render in which \<^verbatim>\<open>token\<close> has changed. It changes \<^verbatim>\<open>token\<close> only to \<^verbatim>\<open>null\<close>, and the
  run that follows sends nothing.
\<close>

definition startup_app ::
  "(string \<rightharpoonup> string) \<Rightarrow> user_profile option http_outcome \<Rightarrow> session \<times> effect list" where
  "startup_app ls me =
     (let s0 = init_app ls; s1 = effect_app s0 me
      in if token s1 = token s0 then (s1, []) else (effect_app s1 me, []))"

text \<open>\<^verbatim>\<open>fetchUserInfo\<close> and the effect of \<^verbatim>\<open>part_000\<close>.\<close>

definition fetchUserInfo_p0 ::
  "session \<Rightarrow> user_profile option http_outcome \<Rightarrow> session \<times> effect list" where
  "fetchUserInfo_p0 s me =
     (case me of
        Accepted d \<Rightarrow> (s\<lparr>user := d, loading := False\<rparr>, [])
      | Failed e \<Rightarrow>
          ((logout_p0 s)\<lparr>loading := False\<rparr>, [ConsoleError ''Failed to fetch user info:'']))"

definition effect_p0 ::
  "session \<Rightarrow> user_profile option http_outcome \<Rightarrow> session \<times> effect list" where
  "effect_p0 s me =
     (case token s of
        None \<Rightarrow> (s\<lparr>loading := False\<rparr>, [])
      | Some t \<Rightarrow>
          if t \<noteq> [] then fetchUserInfo_p0 (s\<lparr>authorization := Some (''Bearer '' @ t)\<rparr>) me
          else (s\<lparr>loading := False\<rparr>, []))"

definition startup_p0 ::
  "(string \<rightharpoonup> string) \<Rightarrow> user_profile option http_outcome \<Rightarrow> session \<times> effect list" where
  "startup_p0 ls me =
     (let s0 = init_p0 ls; (s1, e1) = effect_p0 s0 me
      in if token s1 = token s0 then (s1, e1)
         else (let (s2, e2) = effect_p0 s1 me in (s2, e1 @ e2)))"

text \<open>\<^verbatim>\<open>fetchUserInfo\<close> and the effect of \<^verbatim>\<open>part_001\<close>; the effect runs once.\<close>

definition fetchUserInfo_p1 ::
  "session \<Rightarrow> user_profile option http_outcome \<Rightarrow> session \<times> effect list" where
  "fetchUserInfo_p1 s me =
     (case me of
        Accepted d \<Rightarrow> (s\<lparr>user := d, loading := False\<rparr>, [])
      | Failed e \<Rightarrow>
          (s\<lparr>localStorage := (localStorage s)(''token'' := None), authorization := None,
             loading := False\<rparr>, []))"

definition startup_p1 ::
  "(string \<rightharpoonup> string) \<Rightarrow> user_profile option http_outcome \<Rightarrow> session \<times> effect list" where
  "startup_p1 ls me =
     (let s = init_p1 ls in
      case localStorage s ''token'' of
        None \<Rightarrow> (s\<lparr>loading := False\<rparr>, [])
      | Some t \<Rightarrow>
          if t \<noteq> [] then fetchUserInfo_p1 (s\<lparr>authorization := Some (''Bearer '' @ t)\<rparr>) me
          else (s\<lparr>loading := False\<rparr>, []))"

text \<open>
  \<^verbatim>\<open>AppContent\<close> (\<^verbatim>\<open>AuthContent\<close> in \<^verbatim>\<open>part_001\<close>), the same in the three versions: which
  view is rendered.
\<close>

datatype view = LoadingView | DashboardView | LoginFormView

definition AppContent :: "session \<Rightarrow> view" where
  "AppContent s =
     (if loading s then LoadingView
      else if user s \<noteq> None then DashboardView else LoginFormView)"

text \<open>The messages shown to the user: the alerts. The console is not shown.\<close>

fun surfaced :: "effect list \<Rightarrow> string list" where
  "surfaced [] = []"
| "surfaced (Alert m # es) = m # surfaced es"
| "surfaced (ConsoleError m # es) = surfaced es"

subsection \<open>Logging usage\<close>

datatype json_value = JNum int | JStr string

datatype request = GET string | POST string "(string \<times> json_value) list"

text \<open>
  What a handler does, in order: it sends a request, it resumes after the request it
  awaits has settled, it tells the user something, it sets a state variable.
\<close>

datatype event =
    Send request
  | Settled
  | Tell effect
  | SetFlag string bool
  | Reset string

text \<open>
  \<^verbatim>\<open>handleLogUsage\<close> of \<^verbatim>\<open>App.js\<close>. \<open>api\<close> is the base URL, \<open>q\<close> is
  \<^verbatim>\<open>parseInt(quantity)\<close>, \<open>response\<close> the outcome of the write.
\<close>

definition handleLogUsage_app ::
  "string \<Rightarrow> string \<Rightarrow> int \<Rightarrow> string \<Rightarrow> string http_outcome \<Rightarrow> event list" where
  "handleLogUsage_app api selectedMedication q notes response =
     [SetFlag ''isLogging'' True,
      Send (POST (api @ ''/medications/'' @ selectedMedication @ ''/use'')
              [(''medication_id'', JStr selectedMedication), (''quantity_used'', JNum q),
               (''notes'', JStr notes)]),
      Settled] @
     (case response of
        Accepted _ \<Rightarrow>
          [Tell (Alert ''Usage logged successfully!''),
           Reset ''selectedMedication'', Reset ''quantity'', Reset ''notes'']
      | Failed (ErrorResponse (JsonBody detail)) \<Rightarrow>
          [Tell (Alert (''Error: '' @ template_str detail))]
      | Failed (ErrorResponse NotJson) \<Rightarrow> [Tell (Alert ''Network error occurred'')]
      | Failed NoResponse \<Rightarrow> [Tell (Alert ''Network error occurred'')]) @
     [SetFlag ''isLogging'' False]"

text \<open>
  \<^verbatim>\<open>part_000\<close>: what a call of \<^verbatim>\<open>fetchMedications\<close> (passed to \<^verbatim>\<open>UsageTab\<close> as
  \<^verbatim>\<open>onRefresh\<close>) and of \<^verbatim>\<open>fetchUsageHistory\<close> does before it returns its promise, and
  \<^verbatim>\<open>handleLogUsage\<close>.
\<close>

definition fetchMedications_p0 :: "string \<Rightarrow> event list" where
  "fetchMedications_p0 api = [Send (GET (api @ ''/medications''))]"

definition fetchUsageHistory_p0 :: "string \<Rightarrow> event list" where
  "fetchUsageHistory_p0 api = [Send (GET (api @ ''/usage''))]"

definition handleLogUsage_p0 ::
  "string \<Rightarrow> string \<Rightarrow> int \<Rightarrow> string \<Rightarrow> string http_outcome \<Rightarrow> event list" where
  "handleLogUsage_p0 api selectedMedication q notes response =
     [SetFlag ''isLogging'' True,
      Send (POST (api @ ''/medications/'' @ selectedMedication @ ''/use'')
              [(''quantity_used'', JNum q), (''notes'', JStr notes)]),
      Settled] @
     (case response of
        Accepted _ \<Rightarrow>
          [Reset ''selectedMedication'', Reset ''quantity'', Reset ''notes''] @
          fetchMedications_p0 api @
          fetchUsageHistory_p0 api @
          [Tell (Alert ''Usage logged successfully!'')]
      | Failed e \<Rightarrow> [Tell (Alert (js_or (axios_detail e) ''Failed to log usage''))]) @
     [SetFlag ''isLogging'' False]"

text \<open>\<^verbatim>\<open>part_001\<close>: \<^verbatim>\<open>fetchMedications\<close> and \<^verbatim>\<open>handleUsageSubmit\<close> of \<^verbatim>\<open>MedicationsContent\<close>.\<close>

definition fetchMedications_p1 :: "string \<Rightarrow> event list" where
  "fetchMedications_p1 api = [Send (GET (api @ ''/medications''))]"

definition handleUsageSubmit_p1 ::
  "string \<Rightarrow> string \<Rightarrow> int \<Rightarrow> string \<Rightarrow> string http_outcome \<Rightarrow> event list" where
  "handleUsageSubmit_p1 api medicationId q notes response =
     [SetFlag ''loading'' True,
      Send (POST (api @ ''/medications/'' @ medicationId @ ''/use'')
              [(''quantity_used'', JNum q), (''notes'', JStr notes)]),
      Settled] @
     (case response of
        Accepted _ \<Rightarrow>
          [Tell (Alert ''Usage logged successfully!''), Reset ''usageForm''] @
          fetchMedications_p1 api
      | Failed e \<Rightarrow> [Tell (Alert (js_or (axios_detail e) ''Failed to log usage''))]) @
     [SetFlag ''loading'' False]"

text \<open>
  The URLs a trace fetches with \<^verbatim>\<open>GET\<close>, in order, and the part of a trace that comes
  before the awaited write has settled.
\<close>

fun gets :: "event list \<Rightarrow> string list" where
  "gets [] = []"
| "gets (Send (GET url) # es) = url # gets es"
| "gets (e # es) = gets es"

definition before_settled :: "event list \<Rightarrow> event list" where
  "before_settled tr = takeWhile (\<lambda>e. e \<noteq> Settled) tr"

section \<open>Stock status\<close>

text \<open>
  C1. For a medication whose current stock is not negative, the derived stock status is
  critical (Out of Stock) exactly when the stock is zero, low (Low Stock) exactly when
  the stock is above zero and at or below the minimum threshold, and ok (In Stock; the
  \<^verbatim>\<open>status\<close> field of \<^verbatim>\<open>part_000\<close> calls it \<^verbatim>\<open>good\<close>) exactly in the remaining case. The
  three conditions exclude each other and cover every input, so the three outcomes do
  too. This holds for \<^verbatim>\<open>getStockStatus\<close> of \<^verbatim>\<open>part_000\<close> and of \<^verbatim>\<open>App.js\<close>, and for the
  badges of \<^verbatim>\<open>part_001\<close>, where the third outcome is the absence of a badge.
\<close>

theorem stock_status_classified:
  assumes "0 \<le> current_stock m"
  shows "(status (getStockStatus_p0 m) = ''critical'' \<longleftrightarrow> current_stock m = 0)
       \<and> (status (getStockStatus_p0 m) = ''low'' \<longleftrightarrow>
            0 < current_stock m \<and> current_stock m \<le> minimum_threshold m)
       \<and> (status (getStockStatus_p0 m) = ''good'' \<longleftrightarrow>
            current_stock m \<noteq> 0 \<and>
            \<not> (0 < current_stock m \<and> current_stock m \<le> minimum_threshold m))
       \<and> (info_text (getStockStatus_p0 m) = ''Out of Stock'' \<longleftrightarrow> current_stock m = 0)
       \<and> (info_text (getStockStatus_p0 m) = ''Low Stock'' \<longleftrightarrow>
            0 < current_stock m \<and> current_stock m \<le> minimum_threshold m)
       \<and> (info_text (getStockStatus_p0 m) = ''In Stock'' \<longleftrightarrow>
            current_stock m \<noteq> 0 \<and>
            \<not> (0 < current_stock m \<and> current_stock m \<le> minimum_threshold m))
       \<and> (info_text (getStockStatus_app m) = cross_mark @ '' Out of Stock'' \<longleftrightarrow>
            current_stock m = 0)
       \<and> (info_text (getStockStatus_app m) = warning_sign @ '' Low Stock'' \<longleftrightarrow>
            0 < current_stock m \<and> current_stock m \<le> minimum_threshold m)
       \<and> (info_text (getStockStatus_app m) = check_mark @ '' In Stock'' \<longleftrightarrow>
            current_stock m \<noteq> 0 \<and>
            \<not> (0 < current_stock m \<and> current_stock m \<le> minimum_threshold m))
       \<and> (stockBadges_p1 m = [''OUT OF STOCK''] \<longleftrightarrow> current_stock m = 0)
       \<and> (stockBadges_p1 m = [''LOW STOCK''] \<longleftrightarrow>
            0 < current_stock m \<and> current_stock m \<le> minimum_threshold m)
       \<and> (stockBadges_p1 m = [] \<longleftrightarrow>
            current_stock m \<noteq> 0 \<and>
            \<not> (0 < current_stock m \<and> current_stock m \<le> minimum_threshold m))"
  using assms
  by (auto simp: getStockStatus_p0_def getStockStatus_app_def stockBadges_p1_def
        isLowStock_def isCritical_def cross_mark_def warning_sign_def check_mark_def)

text \<open>The scenario of the specification with stock 3 and threshold 5: low.\<close>

theorem stock_status_classified_witness:
  "(0::int) \<le> 3 \<and>
   status (getStockStatus_p0 \<lparr>med_id = ''m1'', med_name = ''Paracetamol'',
      description = '''', med_unit = ''tablets'', current_stock = 3,
      minimum_threshold = 5\<rparr>) = ''low''"
  using stock_status_classified [of "\<lparr>med_id = ''m1'', med_name = ''Paracetamol'',
      description = '''', med_unit = ''tablets'', current_stock = 3,
      minimum_threshold = 5\<rparr>"]
  by simp

text \<open>
  The hypothesis is needed: a negative stock at or below the threshold is labelled low.
\<close>

lemma negative_stock_is_low:
  "status (getStockStatus_p0 \<lparr>med_id = ''m1'', med_name = ''Paracetamol'',
      description = '''', med_unit = ''tablets'', current_stock = - 1,
      minimum_threshold = 5\<rparr>) = ''low''"
  by (simp add: getStockStatus_p0_def)

section \<open>The low-stock list and the selector of the usage form\<close>

text \<open>
  C8, as stated, fails: the filter of \<^verbatim>\<open>lowStockMeds\<close> has no lower bound, so a
  medication that is out of stock, with threshold 5, is in the low-stock list.
\<close>

theorem lowStockMeds_holds_out_of_stock:
  "current_stock \<lparr>med_id = ''m1'', med_name = ''Insulin'', description = '''',
      med_unit = ''vials'', current_stock = 0, minimum_threshold = 5\<rparr> = 0
   \<and> \<lparr>med_id = ''m1'', med_name = ''Insulin'', description = '''',
      med_unit = ''vials'', current_stock = 0, minimum_threshold = 5\<rparr>
     \<in> set (lowStockMeds [\<lparr>med_id = ''m1'', med_name = ''Insulin'', description = '''',
      med_unit = ''vials'', current_stock = 0, minimum_threshold = 5\<rparr>])"
  by (simp add: lowStockMeds_def)

text \<open>
  C8, amended. The low-stock list contains exactly those medications whose current
  stock is at or below the minimum threshold; a medication with no stock left is among
  them whenever its threshold is not negative.
\<close>

theorem lowStockMeds_at_or_below_threshold:
  "set (lowStockMeds medications) =
     {med \<in> set medications. current_stock med \<le> minimum_threshold med}
   \<and> (m \<in> set medications \<and> current_stock m = 0 \<and> 0 \<le> minimum_threshold m
        \<longrightarrow> m \<in> set (lowStockMeds medications))"
  by (auto simp: lowStockMeds_def)

theorem lowStockMeds_at_or_below_threshold_witness:
  "\<lparr>med_id = ''m1'', med_name = ''Insulin'', description = '''',
      med_unit = ''vials'', current_stock = 0, minimum_threshold = 5\<rparr>
     \<in> set [\<lparr>med_id = ''m1'', med_name = ''Insulin'', description = '''',
      med_unit = ''vials'', current_stock = 0, minimum_threshold = 5\<rparr>]
   \<and> \<lparr>med_id = ''m1'', med_name = ''Insulin'', description = '''',
      med_unit = ''vials'', current_stock = 0, minimum_threshold = 5\<rparr>
     \<in> set (lowStockMeds [\<lparr>med_id = ''m1'', med_name = ''Insulin'', description = '''',
      med_unit = ''vials'', current_stock = 0, minimum_threshold = 5\<rparr>])"
  using lowStockMeds_at_or_below_threshold [of
     "[\<lparr>med_id = ''m1'', med_name = ''Insulin'', description = '''',
      med_unit = ''vials'', current_stock = 0, minimum_threshold = 5\<rparr>]"
     "\<lparr>med_id = ''m1'', med_name = ''Insulin'', description = '''',
      med_unit = ''vials'', current_stock = 0, minimum_threshold = 5\<rparr>"]
  by simp

text \<open>
  With thresholds that are not negative, the out-of-stock medications are part of the
  low-stock list.
\<close>

lemma criticalStockMeds_subset_lowStockMeds:
  assumes "\<forall>med \<in> set medications. 0 \<le> minimum_threshold med"
  shows "set (criticalStockMeds medications) \<subseteq> set (lowStockMeds medications)"
  using assms by (auto simp: criticalStockMeds_def lowStockMeds_def)

text \<open>
  C10. The selector of \<^verbatim>\<open>part_001\<close> offers the medications with stock above zero, in
  their order, and no others: among medications with distinct ids, the id of a
  medication is the value of an option exactly when its stock is above zero. The
  selectors of \<^verbatim>\<open>App.js\<close> and \<^verbatim>\<open>part_000\<close> offer every medication, whatever its stock.
\<close>

theorem usage_selector_options:
  assumes "distinct (map med_id medications)" and "m \<in> set medications"
  shows "map opt_value (usageOptions_p1 medications) =
           map med_id (filter (\<lambda>med. 0 < current_stock med) medications)
       \<and> (med_id m \<in> set (map opt_value (usageOptions_p1 medications)) \<longleftrightarrow>
            0 < current_stock m)
       \<and> map opt_value (usageOptions_app medications) = map med_id medications
       \<and> map opt_value (usageOptions_p0 medications) = map med_id medications
       \<and> med_id m \<in> set (map opt_value (usageOptions_app medications))
       \<and> med_id m \<in> set (map opt_value (usageOptions_p0 medications))"
proof -
  have inj: "inj_on med_id (set medications)"
    using assms(1) by (simp add: distinct_map)
  have p1: "map opt_value (usageOptions_p1 medications) =
           map med_id (filter (\<lambda>med. 0 < current_stock med) medications)"
    by (simp add: usageOptions_p1_def comp_def)
  have app: "map opt_value (usageOptions_app medications) = map med_id medications"
    by (simp add: usageOptions_app_def comp_def)
  have p0: "map opt_value (usageOptions_p0 medications) = map med_id medications"
    by (simp add: usageOptions_p0_def comp_def)
  have mem: "med_id m \<in> set (map opt_value (usageOptions_p1 medications)) \<longleftrightarrow>
      0 < current_stock m"
    unfolding p1 using inj assms(2) by (auto dest: inj_onD)
  show ?thesis
    unfolding app p0 using p1 mem assms(2) by simp
qed

text \<open>Two medications, the first out of stock: only \<^verbatim>\<open>part_001\<close> leaves it out.\<close>

theorem usage_selector_options_witness:
  "distinct (map med_id
     [\<lparr>med_id = ''m1'', med_name = ''Insulin'', description = '''', med_unit = ''vials'',
        current_stock = 0, minimum_threshold = 5\<rparr>,
      \<lparr>med_id = ''m2'', med_name = ''Paracetamol'', description = '''',
        med_unit = ''tablets'', current_stock = 4, minimum_threshold = 5\<rparr>])
   \<and> map opt_value (usageOptions_p1
     [\<lparr>med_id = ''m1'', med_name = ''Insulin'', description = '''', med_unit = ''vials'',
        current_stock = 0, minimum_threshold = 5\<rparr>,
      \<lparr>med_id = ''m2'', med_name = ''Paracetamol'', description = '''',
        med_unit = ''tablets'', current_stock = 4, minimum_threshold = 5\<rparr>]) = [''m2'']
   \<and> map opt_value (usageOptions_app
     [\<lparr>med_id = ''m1'', med_name = ''Insulin'', description = '''', med_unit = ''vials'',
        current_stock = 0, minimum_threshold = 5\<rparr>,
      \<lparr>med_id = ''m2'', med_name = ''Paracetamol'', description = '''',
        med_unit = ''tablets'', current_stock = 4, minimum_threshold = 5\<rparr>])
       = [''m1'', ''m2'']"
  using usage_selector_options [of
     "[\<lparr>med_id = ''m1'', med_name = ''Insulin'', description = '''', med_unit = ''vials'',
        current_stock = 0, minimum_threshold = 5\<rparr>,
      \<lparr>med_id = ''m2'', med_name = ''Paracetamol'', description = '''',
        med_unit = ''tablets'', current_stock = 4, minimum_threshold = 5\<rparr>]"
     "\<lparr>med_id = ''m1'', med_name = ''Insulin'', description = '''', med_unit = ''vials'',
        current_stock = 0, minimum_threshold = 5\<rparr>"]
  by simp

section \<open>Configuration\<close>

text \<open>
  C7, as stated, fails in \<^verbatim>\<open>part_001\<close>: it has no default, and without the variable its
  base URL is the text \<^verbatim>\<open>undefined/api\<close>, which is not a local address.
\<close>

theorem API_p1_without_variable:
  "API_p1 None = ''undefined/api'' \<and> \<not> local_address (API_p1 None)"
  by (simp add: API_p1_def BACKEND_URL_p1_def template_str_def local_address_def)

text \<open>
  C7, amended. In \<^verbatim>\<open>App.js\<close> and \<^verbatim>\<open>part_000\<close>, when the variable is absent the base URL
  is \<^verbatim>\<open>http://localhost:8000/api\<close>, a well-formed local address. \<^verbatim>\<open>part_001\<close> has no
  default: its base URL is the value of the variable followed by \<^verbatim>\<open>/api\<close>.
\<close>

theorem base_url_default:
  "API_BASE_URL_app None = ''http://localhost:8000/api''
   \<and> local_address (API_BASE_URL_app None)
   \<and> API_BASE_URL_p0 None = ''http://localhost:8000/api''
   \<and> local_address (API_BASE_URL_p0 None)
   \<and> API_p1 (Some url) = url @ ''/api''"
  by (simp add: API_BASE_URL_app_def API_BASE_URL_p0_def js_or_def local_address_def
        is_digit_def API_p1_def BACKEND_URL_p1_def template_str_def)

section \<open>The auth context\<close>

text \<open>
  C9. With no enclosing provider \<^verbatim>\<open>useAuth\<close> throws; inside a provider it returns the
  provider's value and does not throw.
\<close>

theorem useAuth_throws_outside_provider:
  "useAuth [] = Inl (Error ''useAuth must be used within an AuthProvider'')
   \<and> useAuth (c # providers) = Inr c"
  by (simp add: useAuth_def useContext_def)

section \<open>The session\<close>

text \<open>
  C3. Whatever the session was, after \<^verbatim>\<open>logout\<close> the user profile is cleared, the token
  is cleared (the state variable in \<^verbatim>\<open>App.js\<close> and \<^verbatim>\<open>part_000\<close>, the shared request
  header in \<^verbatim>\<open>part_000\<close> and \<^verbatim>\<open>part_001\<close>), and the storage holds no token.
\<close>

theorem logout_clears_session:
  "user (logout_app s) = None \<and> token (logout_app s) = None
   \<and> localStorage (logout_app s) ''token'' = None
   \<and> user (logout_p0 s) = None \<and> token (logout_p0 s) = None
   \<and> localStorage (logout_p0 s) ''token'' = None \<and> authorization (logout_p0 s) = None
   \<and> user (logout_p1 s) = None
   \<and> localStorage (logout_p1 s) ''token'' = None \<and> authorization (logout_p1 s) = None"
  by (simp add: logout_app_def logout_p0_def logout_p1_def)

text \<open>Logging out leaves the other keys of the storage alone.\<close>

lemma logout_keeps_other_keys:
  "k \<noteq> ''token'' \<Longrightarrow>
     localStorage (logout_app s) k = localStorage s k
     \<and> localStorage (logout_p0 s) k = localStorage s k
     \<and> localStorage (logout_p1 s) k = localStorage s k"
  by (simp add: logout_app_def logout_p0_def logout_p1_def)

text \<open>
  C5. When the storage holds a token (a string that is not empty, so that the profile is
  looked up) and the lookup fails, with an error response or with no response, then in
  each version the session ends up cleared: no user profile, no token in the state, in
  the storage or in the shared header; the login form is rendered, and nothing is shown
  to the user (\<^verbatim>\<open>part_000\<close> writes to the console only).
\<close>

theorem rejected_startup_shows_login:
  assumes "ls ''token'' = Some t" and "t \<noteq> []"
  shows "user (fst (startup_app ls (Failed e))) = None
       \<and> token (fst (startup_app ls (Failed e))) = None
       \<and> localStorage (fst (startup_app ls (Failed e))) ''token'' = None
       \<and> AppContent (fst (startup_app ls (Failed e))) = LoginFormView
       \<and> surfaced (snd (startup_app ls (Failed e))) = []
       \<and> user (fst (startup_p0 ls (Failed e))) = None
       \<and> token (fst (startup_p0 ls (Failed e))) = None
       \<and> localStorage (fst (startup_p0 ls (Failed e))) ''token'' = None
       \<and> authorization (fst (startup_p0 ls (Failed e))) = None
       \<and> AppContent (fst (startup_p0 ls (Failed e))) = LoginFormView
       \<and> surfaced (snd (startup_p0 ls (Failed e))) = []
       \<and> user (fst (startup_p1 ls (Failed e))) = None
       \<and> localStorage (fst (startup_p1 ls (Failed e))) ''token'' = None
       \<and> authorization (fst (startup_p1 ls (Failed e))) = None
       \<and> AppContent (fst (startup_p1 ls (Failed e))) = LoginFormView
       \<and> surfaced (snd (startup_p1 ls (Failed e))) = []"
proof -
  have app: "startup_app ls (Failed e) =
      (\<lparr>user = None, token = None, loading = False,
        localStorage = ls(''token'' := None), authorization = None\<rparr>, [])"
    using assms by (simp add: startup_app_def init_app_def effect_app_def truthy_def Let_def)
  have p0: "startup_p0 ls (Failed e) =
      (\<lparr>user = None, token = None, loading = False,
        localStorage = ls(''token'' := None), authorization = None\<rparr>,
       [ConsoleError ''Failed to fetch user info:''])"
    using assms
    by (simp add: startup_p0_def init_p0_def effect_p0_def fetchUserInfo_p0_def
          logout_p0_def Let_def)
  have p1: "startup_p1 ls (Failed e) =
      (\<lparr>user = None, token = None, loading = False,
        localStorage = ls(''token'' := None), authorization = None\<rparr>, [])"
    using assms
    by (simp add: startup_p1_def init_p1_def fetchUserInfo_p1_def Let_def)
  show ?thesis
    unfolding app p0 p1 by (simp add: AppContent_def)
qed

text \<open>A stale token in the storage and a backend that does not answer.\<close>

theorem rejected_startup_shows_login_witness:
  "(Map.empty(''token'' \<mapsto> ''stale'')) ''token'' = Some ''stale'' \<and> ''stale'' \<noteq> []
   \<and> AppContent (fst (startup_app (Map.empty(''token'' \<mapsto> ''stale'')) (Failed NoResponse)))
       = LoginFormView
   \<and> localStorage (fst (startup_p0 (Map.empty(''token'' \<mapsto> ''stale'')) (Failed NoResponse)))
       ''token'' = None"
  using rejected_startup_shows_login
          [of "Map.empty(''token'' \<mapsto> ''stale'')" "''stale''" NoResponse]
  by simp

text \<open>
  For comparison, a lookup that succeeds ends in the dashboard, with the token kept.
\<close>

lemma accepted_startup_shows_dashboard:
  assumes "ls ''token'' = Some t" and "t \<noteq> []"
  shows "AppContent (fst (startup_app ls (Accepted (Some u)))) = DashboardView
       \<and> AppContent (fst (startup_p0 ls (Accepted (Some u)))) = DashboardView
       \<and> AppContent (fst (startup_p1 ls (Accepted (Some u)))) = DashboardView
       \<and> localStorage (fst (startup_app ls (Accepted (Some u)))) ''token'' = Some t"
  using assms
  by (simp add: startup_app_def init_app_def effect_app_def truthy_def Let_def
        startup_p0_def init_p0_def effect_p0_def fetchUserInfo_p0_def
        startup_p1_def init_p1_def fetchUserInfo_p1_def AppContent_def)

text \<open>
  An empty token in the storage is falsy: no lookup is sent, the outcome plays no part,
  and the storage is left as it is.
\<close>

lemma empty_token_sends_no_lookup:
  assumes "ls ''token'' = Some []"
  shows "startup_app ls me = (\<lparr>user = None, token = Some [], loading = False,
           localStorage = ls, authorization = None\<rparr>, [])
       \<and> startup_p0 ls me = (\<lparr>user = None, token = Some [], loading = False,
           localStorage = ls, authorization = None\<rparr>, [])
       \<and> startup_p1 ls me = (\<lparr>user = None, token = None, loading = False,
           localStorage = ls, authorization = None\<rparr>, [])"
  using assms
  by (simp add: startup_app_def init_app_def effect_app_def truthy_def Let_def
        startup_p0_def init_p0_def effect_p0_def startup_p1_def init_p1_def)

section \<open>Login and the gateway results\<close>

text \<open>
  In every version a login that fails leaves the session as it was, and a login that
  succeeds stores the token of the response and its user profile.
\<close>

lemma login_rejected_keeps_session:
  "snd (login_app s (Failed e)) = s \<and> snd (login_p0 s (Failed e)) = s
   \<and> snd (login_p1 s (Failed e)) = s"
  by (simp add: login_app_def login_p0_def login_p1_def
        split: http_error.split error_body.split)

lemma login_accepted_session:
  "fst (login_app s (Accepted d)) = \<lparr>success = True, error = None, data = None\<rparr>
   \<and> localStorage (snd (login_app s (Accepted d))) ''token'' = Some (access_token d)
   \<and> token (snd (login_app s (Accepted d))) = Some (access_token d)
   \<and> user (snd (login_app s (Accepted d))) = Some (body_user d)
   \<and> fst (login_p0 s (Accepted d)) = \<lparr>success = True, error = None, data = None\<rparr>
   \<and> localStorage (snd (login_p0 s (Accepted d))) ''token'' = Some (access_token d)
   \<and> token (snd (login_p0 s (Accepted d))) = Some (access_token d)
   \<and> user (snd (login_p0 s (Accepted d))) = Some (body_user d)
   \<and> fst (login_p1 s (Accepted d)) = \<lparr>success = True, error = None, data = None\<rparr>
   \<and> localStorage (snd (login_p1 s (Accepted d))) ''token'' = Some (access_token d)
   \<and> user (snd (login_p1 s (Accepted d))) = Some (body_user d)"
  by (simp add: login_app_def login_p0_def login_p1_def)

lemma js_or_nonempty: "d \<noteq> [] \<Longrightarrow> js_or v d \<noteq> []"
  by (simp add: js_or_def split: option.split)

text \<open>The two axios versions always return a message that is not empty.\<close>

lemma login_axios_rejected_message:
  "\<exists>msg. msg \<noteq> [] \<and> error (fst (login_p0 s (Failed e))) = Some msg
         \<and> error (fst (login_p1 s (Failed e))) = Some msg"
  by (simp add: login_p0_def login_p1_def js_or_nonempty)

text \<open>
  C4: \<^verbatim>\<open>login\<close> of \<^verbatim>\<open>App.js\<close>, evaluated on a rejection whose JSON body has no
  \<^verbatim>\<open>detail\<close>. The session is unchanged, but the result carries no error message: its
  \<^verbatim>\<open>error\<close> is \<^verbatim>\<open>undefined\<close>, where \<^verbatim>\<open>part_000\<close> and \<^verbatim>\<open>part_001\<close> return
  \<^verbatim>\<open>Login failed\<close>.
\<close>

theorem login_app_rejected_without_detail:
  "login_app (init_app Map.empty) (Failed (ErrorResponse (JsonBody None))) =
     (\<lparr>success = False, error = None, data = None\<rparr>, init_app Map.empty)"
  by (simp add: login_app_def)

text \<open>
  C6: \<^verbatim>\<open>login\<close> and \<^verbatim>\<open>initializeAdmin\<close> of \<^verbatim>\<open>App.js\<close>, evaluated on an error response
  whose JSON body has no \<^verbatim>\<open>detail\<close>. The result is \<^verbatim>\<open>success: false\<close> with an
  \<^verbatim>\<open>error\<close> that is \<^verbatim>\<open>undefined\<close>: neither the detail nor a fallback text. The
  \<^verbatim>\<open>catch\<close> of the same two functions returns \<^verbatim>\<open>Network error\<close>, and \<^verbatim>\<open>part_000\<close> and
  \<^verbatim>\<open>part_001\<close> return their fallback text on this outcome.
\<close>

theorem gateway_app_error_without_detail:
  "fst (login_app (init_app Map.empty) (Failed (ErrorResponse (JsonBody None))))
     = \<lparr>success = False, error = None, data = None\<rparr>
   \<and> initializeAdmin_app (Failed (ErrorResponse (JsonBody None)))
     = \<lparr>success = False, error = None, data = None\<rparr>"
  by (simp add: login_app_def initializeAdmin_app_def)

text \<open>
  What the gateway functions do return. \<^verbatim>\<open>login\<close> (three versions) and
  \<^verbatim>\<open>initializeAdmin\<close> (\<^verbatim>\<open>App.js\<close>, \<^verbatim>\<open>part_000\<close>) return \<^verbatim>\<open>success: true\<close> without an
  error on a 2xx response (\<^verbatim>\<open>initializeAdmin\<close> of \<^verbatim>\<open>part_000\<close> adds the response body as
  \<^verbatim>\<open>data\<close>) and \<^verbatim>\<open>success: false\<close> on every failure. The error of a failure is the
  \<^verbatim>\<open>detail\<close> of the error body when that is present and not empty. In \<^verbatim>\<open>part_000\<close> and
  \<^verbatim>\<open>part_001\<close> it is the function's fallback text when the detail is absent or empty
  (an empty string is falsy), when the body is not JSON, and when there is no response.
  In \<^verbatim>\<open>App.js\<close> it is \<^verbatim>\<open>Network error\<close> when the body is not JSON or there is no
  response.
\<close>

lemma gateway_result_translation:
  assumes "detail \<noteq> []"
  shows "fst (login_app s (Accepted d)) = \<lparr>success = True, error = None, data = None\<rparr>
       \<and> fst (login_p0 s (Accepted d)) = \<lparr>success = True, error = None, data = None\<rparr>
       \<and> fst (login_p1 s (Accepted d)) = \<lparr>success = True, error = None, data = None\<rparr>
       \<and> initializeAdmin_app (Accepted b) = \<lparr>success = True, error = None, data = None\<rparr>
       \<and> initializeAdmin_p0 (Accepted b) = \<lparr>success = True, error = None, data = Some b\<rparr>
       \<and> \<not> success (fst (login_app s (Failed e)))
       \<and> \<not> success (fst (login_p0 s (Failed e)))
       \<and> \<not> success (fst (login_p1 s (Failed e)))
       \<and> \<not> success (initializeAdmin_app (Failed e))
       \<and> \<not> success (initializeAdmin_p0 (Failed e))
       \<and> error (fst (login_app s (Failed (ErrorResponse (JsonBody (Some detail))))))
            = Some detail
       \<and> error (fst (login_p0 s (Failed (ErrorResponse (JsonBody (Some detail))))))
            = Some detail
       \<and> error (fst (login_p1 s (Failed (ErrorResponse (JsonBody (Some detail))))))
            = Some detail
       \<and> error (initializeAdmin_app (Failed (ErrorResponse (JsonBody (Some detail)))))
            = Some detail
       \<and> error (initializeAdmin_p0 (Failed (ErrorResponse (JsonBody (Some detail)))))
            = Some detail
       \<and> (e \<in> {ErrorResponse (JsonBody None), ErrorResponse (JsonBody (Some '''')),
                 ErrorResponse NotJson, NoResponse} \<longrightarrow>
            error (fst (login_p0 s (Failed e))) = Some ''Login failed''
            \<and> error (fst (login_p1 s (Failed e))) = Some ''Login failed''
            \<and> error (initializeAdmin_p0 (Failed e)) = Some ''Failed to initialize admin'')
       \<and> (e \<in> {ErrorResponse NotJson, NoResponse} \<longrightarrow>
            error (fst (login_app s (Failed e))) = Some ''Network error''
            \<and> error (initializeAdmin_app (Failed e)) = Some ''Network error'')"
proof -
  have ok: "fst (login_app s (Accepted d)) = \<lparr>success = True, error = None, data = None\<rparr>
       \<and> fst (login_p0 s (Accepted d)) = \<lparr>success = True, error = None, data = None\<rparr>
       \<and> fst (login_p1 s (Accepted d)) = \<lparr>success = True, error = None, data = None\<rparr>
       \<and> initializeAdmin_app (Accepted b) = \<lparr>success = True, error = None, data = None\<rparr>
       \<and> initializeAdmin_p0 (Accepted b) = \<lparr>success = True, error = None, data = Some b\<rparr>"
    by (simp add: login_app_def login_p0_def login_p1_def initializeAdmin_app_def
          initializeAdmin_p0_def)
  have failed: "\<not> success (fst (login_app s (Failed e)))
       \<and> \<not> success (fst (login_p0 s (Failed e)))
       \<and> \<not> success (fst (login_p1 s (Failed e)))
       \<and> \<not> success (initializeAdmin_app (Failed e))
       \<and> \<not> success (initializeAdmin_p0 (Failed e))"
    by (simp add: login_app_def login_p0_def login_p1_def initializeAdmin_app_def
          initializeAdmin_p0_def split: http_error.split error_body.split)
  have present: "error (fst (login_app s (Failed (ErrorResponse (JsonBody (Some detail))))))
            = Some detail
       \<and> error (fst (login_p0 s (Failed (ErrorResponse (JsonBody (Some detail))))))
            = Some detail
       \<and> error (fst (login_p1 s (Failed (ErrorResponse (JsonBody (Some detail))))))
            = Some detail
       \<and> error (initializeAdmin_app (Failed (ErrorResponse (JsonBody (Some detail)))))
            = Some detail
       \<and> error (initializeAdmin_p0 (Failed (ErrorResponse (JsonBody (Some detail)))))
            = Some detail"
    using assms
    by (simp add: login_app_def login_p0_def login_p1_def initializeAdmin_app_def
          initializeAdmin_p0_def js_or_def axios_detail_def)
  have axios: "e \<in> {ErrorResponse (JsonBody None), ErrorResponse (JsonBody (Some '''')),
                 ErrorResponse NotJson, NoResponse} \<longrightarrow>
            error (fst (login_p0 s (Failed e))) = Some ''Login failed''
            \<and> error (fst (login_p1 s (Failed e))) = Some ''Login failed''
            \<and> error (initializeAdmin_p0 (Failed e)) = Some ''Failed to initialize admin''"
    by (auto simp: login_p0_def login_p1_def initializeAdmin_p0_def js_or_def
          axios_detail_def)
  have fetch: "e \<in> {ErrorResponse NotJson, NoResponse} \<longrightarrow>
            error (fst (login_app s (Failed e))) = Some ''Network error''
            \<and> error (initializeAdmin_app (Failed e)) = Some ''Network error''"
    by (auto simp: login_app_def initializeAdmin_app_def)
  from ok failed present axios fetch show ?thesis
    by (intro conjI) (elim conjE, assumption)+
qed

text \<open>A rejection with the detail \<^verbatim>\<open>Invalid credentials\<close>, and one with no response.\<close>

lemma gateway_result_translation_example:
  "''Invalid credentials'' \<noteq> []
   \<and> NoResponse \<in> {ErrorResponse (JsonBody None), ErrorResponse (JsonBody (Some '''')),
                    ErrorResponse NotJson, NoResponse}
   \<and> error (fst (login_p0 (init_p0 Map.empty)
        (Failed (ErrorResponse (JsonBody (Some ''Invalid credentials''))))))
       = Some ''Invalid credentials''
   \<and> error (fst (login_p0 (init_p0 Map.empty) (Failed NoResponse))) = Some ''Login failed''
   \<and> error (fst (login_app (init_app Map.empty) (Failed NoResponse)))
       = Some ''Network error''"
  using gateway_result_translation
          [of "''Invalid credentials''" "init_p0 Map.empty" _ _ NoResponse]
        gateway_result_translation
          [of "''Invalid credentials''" "init_app Map.empty" _ _ NoResponse]
  by simp

text \<open>
  \<^verbatim>\<open>initializeAdmin\<close> of \<^verbatim>\<open>part_001\<close> returns no result; it shows the outcome in an
  alert, with the same rule for the message.
\<close>

lemma initializeAdmin_p1_alert:
  "surfaced (initializeAdmin_p1 (Accepted b))
     = [''Admin user created! Username: admin, Password: admin123'']
   \<and> surfaced (initializeAdmin_p1 (Failed e))
     = [js_or (axios_detail e) ''Failed to create admin user'']"
  by (simp add: initializeAdmin_p1_def)

section \<open>Logging usage\<close>

text \<open>
  C2, as stated, fails: after a successful write \<^verbatim>\<open>handleLogUsage\<close> of \<^verbatim>\<open>App.js\<close>
  fetches nothing, and \<^verbatim>\<open>handleUsageSubmit\<close> of \<^verbatim>\<open>part_001\<close> fetches the medications
  but not the usage history.
\<close>

theorem usage_logging_without_history_refetch:
  "gets (handleLogUsage_app ''http://localhost:8000/api'' ''m1'' 2 '''' (Accepted ''{}''))
     = []
   \<and> gets (handleUsageSubmit_p1 ''http://localhost:8000/api'' ''m1'' 2 '''' (Accepted ''{}''))
     = [''http://localhost:8000/api/medications'']"
  by (simp add: handleLogUsage_app_def handleUsageSubmit_p1_def fetchMedications_p1_def)

text \<open>
  C2, amended. After a successful write, \<^verbatim>\<open>handleLogUsage\<close> of \<^verbatim>\<open>part_000\<close> fetches the
  medications once and the usage history once; \<^verbatim>\<open>handleUsageSubmit\<close> of \<^verbatim>\<open>part_001\<close>
  fetches the medications once and not the usage history; \<^verbatim>\<open>handleLogUsage\<close> of
  \<^verbatim>\<open>App.js\<close> fetches nothing. In no version, whatever the outcome of the write, is anything
  fetched before the write has settled.
\<close>

theorem usage_logging_refetches:
  "gets (handleLogUsage_p0 api m q n (Accepted b)) = [api @ ''/medications'', api @ ''/usage'']
   \<and> gets (before_settled (handleLogUsage_p0 api m q n r)) = []
   \<and> gets (handleUsageSubmit_p1 api m q n (Accepted b)) = [api @ ''/medications'']
   \<and> gets (before_settled (handleUsageSubmit_p1 api m q n r)) = []
   \<and> gets (handleLogUsage_app api m q n r) = []"
proof -
  have a: "gets (handleLogUsage_app api m q n r) = []"
    by (simp add: handleLogUsage_app_def
          split: http_outcome.split http_error.split error_body.split)
  show ?thesis
    using a
    by (simp add: handleLogUsage_p0_def handleUsageSubmit_p1_def before_settled_def
          fetchMedications_p0_def fetchUsageHistory_p0_def fetchMedications_p1_def)
qed

text \<open>A write that fails is followed by no fetch in any version.\<close>

lemma failed_usage_logging_fetches_nothing:
  "gets (handleLogUsage_p0 api m q n (Failed e)) = []
   \<and> gets (handleUsageSubmit_p1 api m q n (Failed e)) = []"
  by (simp add: handleLogUsage_p0_def handleUsageSubmit_p1_def)

end
